theory Spec2Isabelle
  imports Main "HOL-Library.AList" "HOL-Library.Word"
begin

unbundle bit_operations_syntax

section \<open>Data model\<close>

text \<open>
  The keyring of \<^verbatim>\<open>src/unnamed/part_000\<close> (class \<^verbatim>\<open>KeyRing\<close>) is embedded with explicit
  state passing. JavaScript \<^verbatim>\<open>number\<close>s that count records or name BIP44 path levels are
  natural numbers; \<^verbatim>\<open>undefined\<close> is \<open>None\<close>; a thrown \<^verbatim>\<open>Error(msg)\<close> is \<open>Inl (Error msg)\<close>.
\<close>

type_synonym bytes = "8 word list"

datatype AccountType = Mnemonic | PrivateKey | ShieldedKeys

datatype KeyRingStatus = Empty | Locked | Unlocked

datatype ResetPasswordError = ResetPasswordError_BadPassword | ResetPasswordError_KeyStoreError

datatype DeleteAccountError = DeleteAccountError_BadPassword

datatype error = Error string

record Bip44Path =
  account :: nat
  change :: nat
  index :: "nat option"

text \<open>The persisted account record (\<^verbatim>\<open>KeyStore\<close>); \<open>'c\<close> is the encrypted blob.\<close>

record 'c KeyStore =
  ks_id :: string
  ks_alias :: string
  ks_address :: string
  ks_owner :: string
  ks_chainId :: string
  ks_path :: Bip44Path
  ks_parentId :: "string option"
  ks_type :: AccountType
  ks_crypto :: 'c

text \<open>The argument object of \<^verbatim>\<open>crypto.encrypt\<close>: the plain fields, the password and the secret.\<close>

record EncryptParams =
  ep_id :: string
  ep_alias :: string
  ep_address :: string
  ep_owner :: string
  ep_chainId :: string
  ep_path :: Bip44Path
  ep_parentId :: "string option"
  ep_type :: AccountType
  ep_password :: string
  ep_text :: string

record DerivedAccount =
  da_id :: string
  da_address :: string
  da_alias :: string
  da_chainId :: string
  da_parentId :: "string option"
  da_path :: Bip44Path
  da_type :: AccountType

record DerivedAccountInfo =
  dai_address :: string
  dai_id :: string
  dai_text :: string

record DerivedShieldedAccountInfo =
  dsai_address :: string
  dsai_id :: string
  dsai_spendingKey :: bytes
  dsai_viewingKey :: string
  dsai_text :: string

text \<open>
  The collaborators the keyring imports and that are not part of \<^verbatim>\<open>part_000\<close> are
  parameters: the \<^verbatim>\<open>uuid\<close> package (\<open>uuid name namespace\<close>), the chain registry
  (\<open>chains_coinType chainId\<close> is \<^verbatim>\<open>chains[chainId].bip44.coinType\<close>, \<open>None\<close> when the chain is unknown and the
  property access throws), the password box (\<open>seal password text\<close>, \<open>unseal blob password\<close>
  with \<open>None\<close> for a failed decryption), the wasm mnemonic, wallet and address types, the
  transaction builder \<^verbatim>\<open>Sdk\<close> with state \<open>'s\<close>, the chain query and \<^verbatim>\<open>Number.parseInt\<close>
  (\<open>None\<close> for \<^verbatim>\<open>NaN\<close>).
\<close>

record ('c, 's) env =
  uuid :: "string \<Rightarrow> string \<Rightarrow> string"
  chains_coinType :: "string \<Rightarrow> nat option"
  seal :: "string \<Rightarrow> string \<Rightarrow> 'c"
  unseal :: "'c \<Rightarrow> string \<Rightarrow> string option"
  from_phrase :: "string \<Rightarrow> string option"
  to_seed :: "string \<Rightarrow> bytes"
  hd_derive :: "bytes \<Rightarrow> string \<Rightarrow> string"
  implicit :: "string \<Rightarrow> string"
  zip32_derive :: "bytes \<Rightarrow> nat \<Rightarrow> bytes \<times> bytes \<times> bytes"
  encode_xsk :: "bytes \<Rightarrow> string"
  encode_xfvk :: "bytes \<Rightarrow> string"
  encode_payment_address :: "bytes \<Rightarrow> string"
  json_keys :: "string \<Rightarrow> string \<Rightarrow> string"
  sdk_add_key :: "string \<Rightarrow> string \<Rightarrow> string \<Rightarrow> 's \<Rightarrow> 's"
  sdk_add_spending_key :: "bytes \<Rightarrow> string \<Rightarrow> string \<Rightarrow> 's \<Rightarrow> 's"
  sdk_encode :: "'s \<Rightarrow> string"
  sdk_decode :: "string \<Rightarrow> 's \<Rightarrow> 's"
  sdk_clear_storage :: "'s \<Rightarrow> 's"
  query_balance :: "string \<Rightarrow> (string \<times> string) list"
  parseInt :: "string \<Rightarrow> int option"

text \<open>
  The state of a \<^verbatim>\<open>KeyRing\<close> object: the three key-value stores it reads and writes
  (\<^verbatim>\<open>key-store\<close>, \<^verbatim>\<open>sdk-store\<close>, \<^verbatim>\<open>parent-account-id\<close>), the private fields
  \<^verbatim>\<open>_password\<close> and \<^verbatim>\<open>_status\<close>, the constructor's \<^verbatim>\<open>chainId\<close> and the \<^verbatim>\<open>Sdk\<close> object.
\<close>

record ('c, 's) KeyRing =
  keyStore :: "'c KeyStore list"
  sdkStore :: "(string \<times> string) list option"
  activeAccountStore :: "string option"
  password :: "string option"
  status :: KeyRingStatus
  chainId :: string
  sdk :: 's

section \<open>Strings\<close>

text \<open>\<^verbatim>\<open>Array.prototype.join\<close> and the decimal rendering of a number in a template string.\<close>

fun join :: "string \<Rightarrow> string list \<Rightarrow> string" where
  "join sep [] = []"
| "join sep [x] = x"
| "join sep (x # y # ys) = x @ sep @ join sep (y # ys)"

definition digit :: "nat \<Rightarrow> char" where
  "digit d = ''0123456789'' ! (d mod 10)"

fun showNat :: "nat \<Rightarrow> string" where
  "showNat n = (if n < 10 then [digit n] else showNat (n div 10) @ [digit (n mod 10)])"

declare showNat.simps [simp del]

text \<open>
  The decimal reading of a digit string. The rendering is checked against it: reading
  what \<open>showNat\<close> prints gives the number back (\<open>readNat_showNat\<close>).
\<close>

definition digitVal :: "char \<Rightarrow> nat" where
  "digitVal c = of_char c - 48"

definition readNat :: "string \<Rightarrow> nat" where
  "readNat s = foldl (\<lambda>a c. 10 * a + digitVal c) 0 s"

section \<open>Identifiers\<close>

definition UUID_NAMESPACE :: string where
  "UUID_NAMESPACE = ''9bfceade-37fe-11ed-acc0-a3da3461b38c''"

datatype idArg = Num nat | Str string

fun showArg :: "idArg \<Rightarrow> string" where
  "showArg (Num n) = showNat n"
| "showArg (Str s) = s"

definition getId :: "('c, 's) env \<Rightarrow> string \<Rightarrow> idArg list \<Rightarrow> string" where
  "getId E name args =
     (let uuidName = foldl (\<lambda>uuidName arg. uuidName @ ''::'' @ showArg arg) name args
      in uuid E uuidName UUID_NAMESPACE)"

section \<open>The record store and the password box\<close>

text \<open>
  The classes \<^verbatim>\<open>Store\<close> (\<^verbatim>\<open>@anoma/storage\<close>) and \<^verbatim>\<open>Crypto\<close> (\<^verbatim>\<open>./crypto\<close>) belong to the
  repository but are not among the sources. The spec gives the \<^verbatim>\<open>key-store\<close> value as an
  ordered list of account records with a primary view by \<open>id\<close> and further views by
  \<open>parentId\<close>, \<open>address\<close> and \<open>type\<close>. The constants of the store carry the class name as
  a prefix.
\<close>

text \<open>
  Modelled from the spec: \<^verbatim>\<open>Store.getRecord(prop, value)\<close> is missing; it is the first
  record, in the order of the list, whose property has the value, or undefined.
\<close>

definition Store_getRecord :: "('c KeyStore \<Rightarrow> 'v) \<Rightarrow> 'v \<Rightarrow> 'c KeyStore list \<Rightarrow> 'c KeyStore option" where
  "Store_getRecord prop v st = find (\<lambda>r. prop r = v) st"

text \<open>
  Modelled from the spec: \<^verbatim>\<open>Store.getRecords(prop, value)\<close> is missing; it is the list of
  the records whose property has the value, in the order of the list. The model returns
  the list itself, so the callers' \<^verbatim>\<open>|| []\<close> has nothing to do.
\<close>

definition Store_getRecords :: "('c KeyStore \<Rightarrow> 'v) \<Rightarrow> 'v \<Rightarrow> 'c KeyStore list \<Rightarrow> 'c KeyStore list" where
  "Store_getRecords prop v st = filter (\<lambda>r. prop r = v) st"

text \<open>
  Modelled from the spec: \<^verbatim>\<open>Store.append(record)\<close> is missing; it adds the record at the
  end of the list.
\<close>

definition Store_append :: "'c KeyStore list \<Rightarrow> 'c KeyStore \<Rightarrow> 'c KeyStore list" where
  "Store_append st r = st @ [r]"

text \<open>
  Modelled from the spec: \<^verbatim>\<open>Store.update(id, record)\<close> is missing; it puts the record in
  the place of what the primary view holds under the id, and leaves every record under
  another id alone.
\<close>

definition Store_update :: "'c KeyStore list \<Rightarrow> string \<Rightarrow> 'c KeyStore \<Rightarrow> 'c KeyStore list" where
  "Store_update st i r = map (\<lambda>x. if ks_id x = i then r else x) st"

text \<open>
  Modelled from the spec: \<^verbatim>\<open>Store.remove(id)\<close> is missing; it deletes what the primary
  view holds under the id, and leaves every record under another id alone.
\<close>

definition Store_remove :: "'c KeyStore list \<Rightarrow> string \<Rightarrow> 'c KeyStore list" where
  "Store_remove st i = filter (\<lambda>x. ks_id x \<noteq> i) st"

text \<open>
  A lookup by \<open>id\<close> takes a possibly undefined value (the active account id may be
  absent); no record has an undefined id.
\<close>

definition recordId :: "'c KeyStore \<Rightarrow> string option" where
  "recordId r = Some (ks_id r)"

text \<open>
  Modelled from the spec: \<^verbatim>\<open>Crypto.encrypt\<close> is missing. By the spec's data model every
  field of a record but the secret stays in the clear, and \<open>crypto\<close> is the blob of the
  secret under the password.
\<close>

definition encrypt :: "('c, 's) env \<Rightarrow> EncryptParams \<Rightarrow> 'c KeyStore" where
  "encrypt E p =
     \<lparr>ks_id = ep_id p, ks_alias = ep_alias p, ks_address = ep_address p,
      ks_owner = ep_owner p, ks_chainId = ep_chainId p, ks_path = ep_path p,
      ks_parentId = ep_parentId p, ks_type = ep_type p,
      ks_crypto = seal E (ep_password p) (ep_text p)\<rparr>"

text \<open>
  Modelled from the spec: \<^verbatim>\<open>Crypto.decrypt\<close> is missing. By the spec it opens the blob of
  the record under the password and fails when the password is wrong.
\<close>

definition decrypt :: "('c, 's) env \<Rightarrow> 'c KeyStore \<Rightarrow> string \<Rightarrow> string option" where
  "decrypt E r pw = unseal E (ks_crypto r) pw"

section \<open>Lock state and password check\<close>

definition isLocked :: "('c, 's) KeyRing \<Rightarrow> bool" where
  "isLocked kr = (password kr = None)"

definition lock :: "('c, 's) KeyRing \<Rightarrow> ('c, 's) KeyRing" where
  "lock kr = kr\<lparr>status := Locked, password := None\<rparr>"

definition getActiveAccountId :: "('c, 's) KeyRing \<Rightarrow> string option" where
  "getActiveAccountId kr = activeAccountStore kr"

definition setActiveAccountId :: "('c, 's) env \<Rightarrow> ('c, 's) KeyRing \<Rightarrow> string \<Rightarrow> ('c, 's) KeyRing" where
  "setActiveAccountId E kr parentId =
     (let kr1 = kr\<lparr>activeAccountStore := Some parentId\<rparr>
      in case sdkStore kr1 of
           None \<Rightarrow> kr1
         | Some sdkData \<Rightarrow>
             kr1\<lparr>sdk := sdk_decode E (case map_of sdkData parentId of None \<Rightarrow> [] | Some d \<Rightarrow> d)
                            (sdk kr1)\<rparr>)"

definition checkPassword :: "('c, 's) env \<Rightarrow> ('c, 's) KeyRing \<Rightarrow> string \<Rightarrow> string option \<Rightarrow> bool" where
  "checkPassword E kr pw accountId =
     (let idToCheck = (case accountId of Some a \<Rightarrow> Some a | None \<Rightarrow> getActiveAccountId kr)
      in case Store_getRecord recordId idToCheck (keyStore kr) of
           Some mnemonic \<Rightarrow> (case decrypt E mnemonic pw of Some _ \<Rightarrow> True | None \<Rightarrow> False)
         | None \<Rightarrow> False)"

definition unlock :: "('c, 's) env \<Rightarrow> ('c, 's) KeyRing \<Rightarrow> string \<Rightarrow> ('c, 's) KeyRing" where
  "unlock E kr pw =
     (if checkPassword E kr pw None then kr\<lparr>password := Some pw, status := Unlocked\<rparr> else kr)"

section \<open>Password rotation\<close>

text \<open>
  The \<^verbatim>\<open>for\<close> loop of \<^verbatim>\<open>resetPassword\<close> over \<^verbatim>\<open>allAccounts\<close>: each record is decrypted
  under the current password, sealed under the new one and written back at once. An
  exception leaves the loop; the flag tells whether the loop ran to its end, and the
  store is returned as the writes so far have left it.
\<close>

fun resetPassword_loop ::
  "('c, 's) env \<Rightarrow> string \<Rightarrow> string \<Rightarrow> 'c KeyStore list \<Rightarrow> 'c KeyStore list \<Rightarrow> bool \<times> 'c KeyStore list" where
  "resetPassword_loop E currentPassword newPassword [] st = (True, st)"
| "resetPassword_loop E currentPassword newPassword (a # as) st =
     (case decrypt E a currentPassword of
        None \<Rightarrow> (False, st)
      | Some decryptedSecret \<Rightarrow>
          (let reencrypted = encrypt E
                 \<lparr>ep_id = ks_id a, ep_alias = ks_alias a, ep_address = ks_address a,
                  ep_owner = ks_owner a, ep_chainId = ks_chainId a, ep_path = ks_path a,
                  ep_parentId = ks_parentId a, ep_type = ks_type a,
                  ep_password = newPassword, ep_text = decryptedSecret\<rparr>
           in resetPassword_loop E currentPassword newPassword as (Store_update st (ks_id a) reencrypted)))"

definition resetPassword ::
  "('c, 's) env \<Rightarrow> ('c, 's) KeyRing \<Rightarrow> string \<Rightarrow> string \<Rightarrow> string
     \<Rightarrow> (ResetPasswordError + unit) \<times> ('c, 's) KeyRing" where
  "resetPassword E kr currentPassword newPassword accountId =
     (if \<not> checkPassword E kr currentPassword (Some accountId)
      then (Inl ResetPasswordError_BadPassword, kr)
      else
        let derivedAccounts = Store_getRecords ks_parentId (Some accountId) (keyStore kr)
        in case Store_getRecord recordId (Some accountId) (keyStore kr) of
             None \<Rightarrow> (Inl ResetPasswordError_KeyStoreError, kr)
           | Some topLevelAccount \<Rightarrow>
               (case resetPassword_loop E currentPassword newPassword
                       (topLevelAccount # derivedAccounts)
                       (keyStore kr) of
                  (False, st) \<Rightarrow> (Inl ResetPasswordError_KeyStoreError, kr\<lparr>keyStore := st\<rparr>)
                | (True, st) \<Rightarrow>
                    (Inr (),
                     if Some accountId = getActiveAccountId kr
                     then kr\<lparr>keyStore := st, password := Some newPassword\<rparr>
                     else kr\<lparr>keyStore := st\<rparr>)))"

section \<open>Transaction builder side store\<close>

definition addSecretKey ::
  "('c, 's) env \<Rightarrow> ('c, 's) KeyRing \<Rightarrow> string \<Rightarrow> string \<Rightarrow> string \<Rightarrow> string \<Rightarrow> ('c, 's) KeyRing" where
  "addSecretKey E kr secretKey pw alias activeAccountId =
     (let sdk1 = sdk_add_key E secretKey pw alias (sdk kr);
          store = (case sdkStore kr of None \<Rightarrow> [] | Some d \<Rightarrow> d)
      in kr\<lparr>sdk := sdk1,
            sdkStore := Some (AList.update activeAccountId (sdk_encode E sdk1) store)\<rparr>)"

definition addSpendingKey ::
  "('c, 's) env \<Rightarrow> ('c, 's) KeyRing \<Rightarrow> bytes \<Rightarrow> string \<Rightarrow> string \<Rightarrow> string \<Rightarrow> ('c, 's) KeyRing" where
  "addSpendingKey E kr spendingKey pw alias activeAccountId =
     (let sdk1 = sdk_add_spending_key E spendingKey pw alias (sdk kr);
          store = (case sdkStore kr of None \<Rightarrow> [] | Some d \<Rightarrow> d)
      in kr\<lparr>sdk := sdk1,
            sdkStore := Some (AList.update activeAccountId (sdk_encode E sdk1) store)\<rparr>)"

section \<open>Storing a mnemonic\<close>

text \<open>
  \<^verbatim>\<open>storeMnemonic\<close> throws on an empty password; every exception inside its \<^verbatim>\<open>try\<close> block
  (a phrase that \<^verbatim>\<open>Mnemonic.from_phrase\<close> rejects, a chain missing from the registry) is
  caught and logged, and the function returns \<^verbatim>\<open>false\<close>.
\<close>

definition storeMnemonic ::
  "('c, 's) env \<Rightarrow> ('c, 's) KeyRing \<Rightarrow> string list \<Rightarrow> string \<Rightarrow> string
     \<Rightarrow> (error + bool) \<times> ('c, 's) KeyRing" where
  "storeMnemonic E kr mnemonic pw alias =
     (if pw = [] then (Inl (Error ''Password is not provided! Cannot store mnemonic''), kr)
      else
        let phrase = join '' '' mnemonic
        in case from_phrase E phrase of
             None \<Rightarrow> (Inr False, kr)
           | Some m \<Rightarrow>
               (let seed = to_seed E m
                in case chains_coinType E (chainId kr) of
                     None \<Rightarrow> (Inr False, kr)
                   | Some coinType \<Rightarrow>
                       (let path = ''m/44'/'' @ showNat coinType @ [CHR 0x27] @ ''/0'/0'';
                            sk = hd_derive E seed path;
                            address = implicit E sk;
                            newId = getId E phrase [Num (length (keyStore kr))];
                            mnemonicStore = encrypt E
                              \<lparr>ep_id = newId, ep_alias = alias, ep_address = address,
                               ep_owner = address, ep_chainId = chainId kr,
                               ep_path = \<lparr>account = 0, change = 0, index = None\<rparr>,
                               ep_parentId = None, ep_type = Mnemonic,
                               ep_password = pw, ep_text = phrase\<rparr>;
                            kr1 = kr\<lparr>keyStore := Store_append (keyStore kr) mnemonicStore\<rparr>;
                            kr2 = kr1\<lparr>sdk := sdk_clear_storage E (sdk kr1)\<rparr>;
                            kr3 = addSecretKey E kr2 sk pw alias newId;
                            kr4 = setActiveAccountId E kr3 newId
                        in (Inr True, kr4\<lparr>password := Some pw\<rparr>))))"

section \<open>Derivation\<close>

text \<open>
  The derivation path string that \<^verbatim>\<open>deriveTransparentAccount\<close> joins from its five
  segments; \<^verbatim>\<open>index\<close> is destructured with the default \<^verbatim>\<open>0\<close>.
\<close>

definition derivationPath :: "nat \<Rightarrow> Bip44Path \<Rightarrow> string" where
  "derivationPath coinType path =
     (let i = (case index path of None \<Rightarrow> 0 | Some i \<Rightarrow> i);
          root = ''m/44'' @ [CHR 0x27]
      in join ''/'' [root, showNat coinType @ [CHR 0x27], showNat (account path),
                     showNat (change path), showNat i])"

definition deriveTransparentAccount ::
  "('c, 's) env \<Rightarrow> bytes \<Rightarrow> Bip44Path \<Rightarrow> string \<Rightarrow> string \<Rightarrow> DerivedAccountInfo option" where
  "deriveTransparentAccount E seed path parentId chain =
     (let i = (case index path of None \<Rightarrow> 0 | Some i \<Rightarrow> i)
      in case chains_coinType E chain of
           None \<Rightarrow> None
         | Some coinType \<Rightarrow>
             (let text = hd_derive E seed (derivationPath coinType path);
                  address = implicit E text;
                  newId = getId E ''account''
                            [Str parentId, Num (account path), Num (change path), Num i]
              in Some \<lparr>dai_address = address, dai_id = newId, dai_text = text\<rparr>))"

definition deriveShieldedAccount ::
  "('c, 's) env \<Rightarrow> bytes \<Rightarrow> Bip44Path \<Rightarrow> string \<Rightarrow> DerivedShieldedAccountInfo" where
  "deriveShieldedAccount E seed path parentId =
     (let i = (case index path of None \<Rightarrow> 0 | Some i \<Rightarrow> i);
          newId = getId E ''shielded-account'' [Str parentId, Num i]
      in case zip32_derive E seed i of
           (xsk, xfvk, payment_address) \<Rightarrow>
             (let spendingKey = encode_xsk E xsk;
                  viewingKey = encode_xfvk E xfvk;
                  address = encode_payment_address E payment_address
              in \<lparr>dsai_address = address, dsai_id = newId, dsai_spendingKey = xsk,
                  dsai_viewingKey = viewingKey,
                  dsai_text = json_keys E spendingKey viewingKey\<rparr>))"

text \<open>
  \<^verbatim>\<open>deriveAccount\<close> throws when no password is cached or the active record is missing;
  every exception inside its \<^verbatim>\<open>try\<close> block is rethrown under one message. The calls to
  \<^verbatim>\<open>addSpendingKey\<close>, \<^verbatim>\<open>addSecretKey\<close> and \<^verbatim>\<open>append\<close> are not awaited: their writes are
  part of the state the operation leaves behind, and the value returned does not depend
  on them.
\<close>

definition deriveAccount ::
  "('c, 's) env \<Rightarrow> ('c, 's) KeyRing \<Rightarrow> Bip44Path \<Rightarrow> AccountType \<Rightarrow> string
     \<Rightarrow> (error + DerivedAccount) \<times> ('c, 's) KeyRing" where
  "deriveAccount E kr path type alias =
     (case password kr of
        None \<Rightarrow> (Inl (Error ''No password is set!''), kr)
      | Some pw \<Rightarrow>
          if pw = [] then (Inl (Error ''No password is set!''), kr)
          else
            (case Store_getRecord recordId (getActiveAccountId kr) (keyStore kr) of
              None \<Rightarrow> (Inl (Error ''Mnemonic is not set!''), kr)
            | Some storedMnemonic \<Rightarrow>
                (let parentId = ks_id storedMnemonic;
                     failed = (Inl (Error ''Could not decrypt mnemonic from password!''), kr)
                 in case decrypt E storedMnemonic pw of
                      None \<Rightarrow> failed
                    | Some phrase \<Rightarrow>
                        (case from_phrase E phrase of
                           None \<Rightarrow> failed
                         | Some m \<Rightarrow>
                             (let seed = to_seed E m;
                                  derived =
                                    (if type = ShieldedKeys then
                                       (let shieldedAccount = deriveShieldedAccount E seed path parentId
                                        in Some (dsai_id shieldedAccount, dsai_address shieldedAccount,
                                                 dsai_text shieldedAccount, dsai_viewingKey shieldedAccount,
                                                 addSpendingKey E kr (dsai_spendingKey shieldedAccount)
                                                   pw alias parentId))
                                     else
                                       (case deriveTransparentAccount E seed path parentId (chainId kr) of
                                          None \<Rightarrow> None
                                        | Some transparentAccount \<Rightarrow>
                                            Some (dai_id transparentAccount, dai_address transparentAccount,
                                                  dai_text transparentAccount, dai_address transparentAccount,
                                                  addSecretKey E kr (dai_text transparentAccount)
                                                    pw alias parentId)))
                              in case derived of
                                   None \<Rightarrow> failed
                                 | Some (newId, address, text, owner, kr1) \<Rightarrow>
                                     (Inr \<lparr>da_id = newId, da_address = address, da_alias = alias,
                                           da_chainId = chainId kr, da_parentId = Some parentId,
                                           da_path = path, da_type = type\<rparr>,
                                      kr1\<lparr>keyStore := Store_append (keyStore kr1)
                                        (encrypt E
                                           \<lparr>ep_id = newId, ep_alias = alias, ep_address = address,
                                            ep_owner = owner, ep_chainId = chainId kr,
                                            ep_path = path, ep_parentId = Some parentId,
                                            ep_type = type, ep_password = pw,
                                            ep_text = text\<rparr>)\<rparr>))))))"

section \<open>Queries\<close>

definition toDerivedAccount :: "'c KeyStore \<Rightarrow> DerivedAccount" where
  "toDerivedAccount r =
     \<lparr>da_id = ks_id r, da_address = ks_address r, da_alias = ks_alias r,
      da_chainId = ks_chainId r, da_parentId = ks_parentId r, da_path = ks_path r,
      da_type = ks_type r\<rparr>"

definition queryAccounts :: "('c, 's) KeyRing \<Rightarrow> DerivedAccount list" where
  "queryAccounts kr =
     (let activeAccountId = getActiveAccountId kr;
          derivedAccounts = Store_getRecords ks_parentId activeAccountId (keyStore kr)
      in case Store_getRecord recordId activeAccountId (keyStore kr) of
           Some parentAccount \<Rightarrow> map toDerivedAccount (parentAccount # derivedAccounts)
         | None \<Rightarrow> [])"

definition queryParentAccounts :: "('c, 's) KeyRing \<Rightarrow> DerivedAccount list" where
  "queryParentAccounts kr = map toDerivedAccount (Store_getRecords ks_type Mnemonic (keyStore kr))"

definition queryBalances ::
  "('c, 's) env \<Rightarrow> ('c, 's) KeyRing \<Rightarrow> string \<Rightarrow> error + (string \<times> int option) list" where
  "queryBalances E kr address =
     (case Store_getRecord ks_address address (keyStore kr) of
        None \<Rightarrow> Inl (Error ''Account not found.'')
      | Some acc \<Rightarrow>
          Inr (map (\<lambda>(token, amount). (token, parseInt E amount)) (query_balance E (ks_owner acc))))"

section \<open>Deleting an account\<close>

text \<open>
  The \<^verbatim>\<open>for\<close> loop of \<^verbatim>\<open>deleteAccount\<close>: \<^verbatim>\<open>id && remove(id)\<close> skips an empty id.
\<close>

fun deleteAccount_loop :: "string list \<Rightarrow> 'c KeyStore list \<Rightarrow> 'c KeyStore list" where
  "deleteAccount_loop [] st = st"
| "deleteAccount_loop (i # ids) st =
     deleteAccount_loop ids (if i \<noteq> [] then Store_remove st i else st)"

definition deleteAccount ::
  "('c, 's) env \<Rightarrow> ('c, 's) KeyRing \<Rightarrow> string \<Rightarrow> string
     \<Rightarrow> (DeleteAccountError + unit) \<times> ('c, 's) KeyRing" where
  "deleteAccount E kr accountId pw =
     (if \<not> checkPassword E kr pw (Some accountId)
      then (Inl DeleteAccountError_BadPassword, kr)
      else
        let derivedAccounts = Store_getRecords ks_parentId (Some accountId) (keyStore kr);
            accountIds = accountId # map ks_id derivedAccounts;
            kr1 = kr\<lparr>keyStore := deleteAccount_loop accountIds (keyStore kr)\<rparr>
        in (Inr (),
            if Some accountId = getActiveAccountId kr then kr1\<lparr>password := None\<rparr> else kr1))"

section \<open>Reachable keyrings\<close>

text \<open>
  The keyrings that the public operations produce from an empty key store.
\<close>

inductive reachable :: "('c, 's) env \<Rightarrow> ('c, 's) KeyRing \<Rightarrow> bool" for E :: "('c, 's) env" where
  reachable_init: "keyStore kr = [] \<Longrightarrow> reachable E kr"
| reachable_storeMnemonic:
    "reachable E kr \<Longrightarrow> reachable E (snd (storeMnemonic E kr mnemonic pw alias))"
| reachable_deriveAccount:
    "reachable E kr \<Longrightarrow> reachable E (snd (deriveAccount E kr path type alias))"
| reachable_resetPassword:
    "reachable E kr \<Longrightarrow> reachable E (snd (resetPassword E kr currentPassword newPassword accountId))"
| reachable_deleteAccount:
    "reachable E kr \<Longrightarrow> reachable E (snd (deleteAccount E kr accountId pw))"
| reachable_unlock: "reachable E kr \<Longrightarrow> reachable E (unlock E kr pw)"
| reachable_lock: "reachable E kr \<Longrightarrow> reachable E (lock kr)"
| reachable_setActiveAccountId:
    "reachable E kr \<Longrightarrow> reachable E (setActiveAccountId E kr parentId)"

section \<open>UUID version 5\<close>

text \<open>
  The \<^verbatim>\<open>uuid\<close> package is a third-party dependency and a parameter of the environment.
  The examples instantiate it with the name-based UUID of RFC 4122, version 5: the SHA-1
  digest of the namespace bytes followed by the UTF-8 bytes of the name, cut to 16 bytes,
  with the version and variant bits set, printed in the 8-4-4-4-12 form. Bytes and 32-bit
  words are integers, with the wrap-around written out.
\<close>

type_synonym word32 = int

definition w32 :: "int \<Rightarrow> word32" where
  "w32 x = x mod 4294967296"

definition rotl32 :: "nat \<Rightarrow> word32 \<Rightarrow> word32" where
  "rotl32 n x = w32 (x * 2 ^ n) + x div 2 ^ (32 - n)"

definition not32 :: "word32 \<Rightarrow> word32" where
  "not32 x = 4294967295 - x"

definition sha1_ch :: "word32 \<Rightarrow> word32 \<Rightarrow> word32 \<Rightarrow> word32" where
  "sha1_ch b c d = (b AND c) OR (not32 b AND d)"

definition sha1_parity :: "word32 \<Rightarrow> word32 \<Rightarrow> word32 \<Rightarrow> word32" where
  "sha1_parity b c d = b XOR c XOR d"

definition sha1_maj :: "word32 \<Rightarrow> word32 \<Rightarrow> word32 \<Rightarrow> word32" where
  "sha1_maj b c d = (b AND c) OR (b AND d) OR (c AND d)"

text \<open>The message schedule is kept newest word first.\<close>

primrec sha1_schedule :: "nat \<Rightarrow> word32 list \<Rightarrow> word32 list" where
  "sha1_schedule 0 ws = ws"
| "sha1_schedule (Suc n) ws =
     sha1_schedule n (rotl32 1 (ws ! 2 XOR ws ! 7 XOR ws ! 13 XOR ws ! 15) # ws)"

fun sha1_round ::
  "(word32 \<Rightarrow> word32 \<Rightarrow> word32 \<Rightarrow> word32) \<Rightarrow> word32 \<Rightarrow> word32 list \<Rightarrow> word32 \<Rightarrow> word32 list" where
  "sha1_round f k [a, b, c, d, e] w =
     [w32 (rotl32 5 a + f b c d + e + k + w), a, rotl32 30 b, c, d]"
| "sha1_round f k s w = s"

definition sha1_block :: "word32 list \<Rightarrow> word32 list \<Rightarrow> word32 list" where
  "sha1_block h block =
     (let ws = rev (sha1_schedule 64 (rev block));
          s1 = foldl (sha1_round sha1_ch 0x5A827999) h (take 20 ws);
          s2 = foldl (sha1_round sha1_parity 0x6ED9EBA1) s1 (take 20 (drop 20 ws));
          s3 = foldl (sha1_round sha1_maj 0x8F1BBCDC) s2 (take 20 (drop 40 ws));
          s4 = foldl (sha1_round sha1_parity 0xCA62C1D6) s3 (drop 60 ws)
      in map (\<lambda>(x, y). w32 (x + y)) (zip h s4))"

fun be32 :: "int list \<Rightarrow> word32 list" where
  "be32 (a # b # c # d # bs) = (((a * 256 + b) * 256 + c) * 256 + d) # be32 bs"
| "be32 bs = []"

function sha1_blocks :: "word32 list \<Rightarrow> word32 list \<Rightarrow> word32 list" where
  "sha1_blocks h ws =
     (if ws = [] then h else sha1_blocks (sha1_block h (take 16 ws)) (drop 16 ws))"
  by pat_completeness auto
termination
  by (relation "measure (\<lambda>(h, ws). length ws)") auto

declare sha1_blocks.simps [simp del]

definition sha1_pad :: "int list \<Rightarrow> int list" where
  "sha1_pad m =
     (let l = int (length m);
          bits = 8 * l
      in m @ [128] @ replicate (nat ((119 - l mod 64) mod 64)) 0 @
         [bits div 72057594037927936 mod 256, bits div 281474976710656 mod 256,
          bits div 1099511627776 mod 256, bits div 4294967296 mod 256,
          bits div 16777216 mod 256, bits div 65536 mod 256, bits div 256 mod 256,
          bits mod 256])"

definition word32_bytes :: "word32 \<Rightarrow> int list" where
  "word32_bytes w = [w div 16777216 mod 256, w div 65536 mod 256, w div 256 mod 256, w mod 256]"

definition sha1 :: "int list \<Rightarrow> int list" where
  "sha1 m = concat (map word32_bytes
     (sha1_blocks [0x67452301, 0xEFCDAB89, 0x98BADCFE, 0x10325476, 0xC3D2E1F0]
        (be32 (sha1_pad m))))"

definition hexdigit :: "int \<Rightarrow> char" where
  "hexdigit n = ''0123456789abcdef'' ! nat (n mod 16)"

definition hex_byte :: "int \<Rightarrow> string" where
  "hex_byte b = [hexdigit (b div 16), hexdigit b]"

definition hexval :: "char \<Rightarrow> int" where
  "hexval c =
     (let n = of_char c
      in if 48 \<le> n \<and> n < 58 then n - 48
         else if 97 \<le> n \<and> n < 103 then n - 87
         else if 65 \<le> n \<and> n < 71 then n - 55 else 0)"

fun unhex :: "string \<Rightarrow> int list" where
  "unhex (a # b # cs) = (16 * hexval a + hexval b) # unhex cs"
| "unhex cs = []"

definition uuid_parse :: "string \<Rightarrow> int list" where
  "uuid_parse s = unhex (filter (\<lambda>c. c \<noteq> CHR ''-'') s)"

definition uuid_format :: "int list \<Rightarrow> string" where
  "uuid_format bs =
     concat (map hex_byte (take 4 bs)) @ ''-'' @
     concat (map hex_byte (take 2 (drop 4 bs))) @ ''-'' @
     concat (map hex_byte (take 2 (drop 6 bs))) @ ''-'' @
     concat (map hex_byte (take 2 (drop 8 bs))) @ ''-'' @
     concat (map hex_byte (take 6 (drop 10 bs)))"

definition uuidv5 :: "string \<Rightarrow> string \<Rightarrow> string" where
  "uuidv5 name ns =
     (let h = sha1 (uuid_parse ns @ map of_char name);
          h6 = (h ! 6) mod 16 + 80;
          h8 = (h ! 8) mod 64 + 128
      in uuid_format (take 16 (h[6 := h6, 8 := h8])))"

section \<open>Example keyrings\<close>

text \<open>
  A concrete environment and concrete keyrings, on which the results below are
  instantiated. \<open>uuid\<close> is \<open>uuidv5\<close>. The other stand-ins are small and executable: the
  password box keeps the pair of password and secret and opens under that password only,
  the phrase validator accepts one phrase, and the chain registry knows one chain with
  coin type 877.
\<close>

definition testPhrase :: "string list" where
  "testPhrase = [''abandon'', ''abandon'', ''abandon'', ''abandon'', ''abandon'', ''abandon'',
                 ''abandon'', ''abandon'', ''abandon'', ''abandon'', ''abandon'', ''about'']"

definition testEnv :: "(string \<times> string, string list) env" where
  "testEnv =
     \<lparr>uuid = uuidv5,
      chains_coinType = (\<lambda>c. if c = ''namada-test'' then Some 877 else None),
      seal = (\<lambda>pw text. (pw, text)),
      unseal = (\<lambda>blob pw. if fst blob = pw then Some (snd blob) else None),
      from_phrase = (\<lambda>p. if p = join '' '' testPhrase then Some p else None),
      to_seed = (\<lambda>m. []),
      hd_derive = (\<lambda>seed path. ''sk@'' @ path),
      implicit = (\<lambda>sk. ''addr@'' @ sk),
      zip32_derive = (\<lambda>seed i. ([1], [2], [3])),
      encode_xsk = (\<lambda>b. ''xsk''),
      encode_xfvk = (\<lambda>b. ''xfvk''),
      encode_payment_address = (\<lambda>b. ''paddr''),
      json_keys = (\<lambda>s v. s @ '','' @ v),
      sdk_add_key = (\<lambda>sk pw alias s. s @ [alias]),
      sdk_add_spending_key = (\<lambda>xsk pw alias s. s @ [alias]),
      sdk_encode = (\<lambda>s. join '','' s),
      sdk_decode = (\<lambda>d s. [d]),
      sdk_clear_storage = (\<lambda>s. []),
      query_balance = (\<lambda>owner. []),
      parseInt = (\<lambda>s. None)\<rparr>"

definition testRecord :: "string \<Rightarrow> string option \<Rightarrow> string \<Rightarrow> string \<Rightarrow> (string \<times> string) KeyStore" where
  "testRecord i parent pw text =
     \<lparr>ks_id = i, ks_alias = ''alias'', ks_address = ''addr@'' @ i, ks_owner = ''addr@'' @ i,
      ks_chainId = ''namada-test'', ks_path = \<lparr>account = 0, change = 0, index = None\<rparr>,
      ks_parentId = parent,
      ks_type = (case parent of None \<Rightarrow> Mnemonic | Some _ \<Rightarrow> PrivateKey),
      ks_crypto = (pw, text)\<rparr>"

definition testRing :: "(string \<times> string) KeyStore list \<Rightarrow> string option \<Rightarrow> (string \<times> string, string list) KeyRing" where
  "testRing st pw =
     \<lparr>keyStore = st, sdkStore = None, activeAccountStore = Some ''p1'', password = pw,
      status = (case pw of None \<Rightarrow> Locked | Some _ \<Rightarrow> Unlocked),
      chainId = ''namada-test'', sdk = []\<rparr>"

definition parent1 :: "(string \<times> string) KeyStore" where
  "parent1 = testRecord ''p1'' None ''hunter2'' (join '' '' testPhrase)"

definition child1 :: "(string \<times> string) KeyStore" where
  "child1 = testRecord ''c1'' (Some ''p1'') ''hunter2'' ''sk1''"

definition child1_other :: "(string \<times> string) KeyStore" where
  "child1_other = testRecord ''c1'' (Some ''p1'') ''other'' ''sk1''"

definition parent2 :: "(string \<times> string) KeyStore" where
  "parent2 = testRecord ''p2'' None ''hunter2'' (join '' '' testPhrase)"

definition child2 :: "(string \<times> string) KeyStore" where
  "child2 = testRecord ''c2'' (Some ''p2'') ''hunter2'' ''sk2''"

definition path000 :: Bip44Path where
  "path000 = \<lparr>account = 0, change = 0, index = Some 0\<rparr>"

text \<open>An empty keyring, as a fresh installation has it.\<close>

definition ring0 :: "(string \<times> string, string list) KeyRing" where
  "ring0 = \<lparr>keyStore = [], sdkStore = None, activeAccountStore = None, password = None,
            status = Empty, chainId = ''namada-test'', sdk = []\<rparr>"

text \<open>A locked keyring with a parent and a child.\<close>

definition ring1 :: "(string \<times> string, string list) KeyRing" where
  "ring1 = testRing [parent1, child1] None"

text \<open>A keyring whose child record does not open under the parent's password.\<close>

definition ring2 :: "(string \<times> string, string list) KeyRing" where
  "ring2 = testRing [parent1, child1_other] (Some ''hunter2'')"

text \<open>An unlocked keyring after one transparent derivation at path (0, 0, 0).\<close>

definition ring3 :: "(string \<times> string, string list) KeyRing" where
  "ring3 = snd (deriveAccount testEnv (testRing [parent1] (Some ''hunter2'')) path000 PrivateKey ''a'')"

text \<open>An unlocked keyring with two parents and a child of each; the first parent is active.\<close>

definition ring4 :: "(string \<times> string, string list) KeyRing" where
  "ring4 = testRing [parent1, child1, parent2, child2] (Some ''hunter2'')"

section \<open>Results\<close>

subsection \<open>Auxiliary facts\<close>

lemma showNat_0: "showNat 0 = ''0''"
  by (simp add: showNat.simps digit_def)

text \<open>The decimal rendering is read back exactly, so distinct numbers print differently.\<close>

lemma digitVal_digit: "d < 10 \<Longrightarrow> digitVal (digit d) = d"
proof -
  assume "d < 10"
  then have "d \<in> {0, 1, 2, 3, 4, 5, 6, 7, 8, 9}" by auto
  then show ?thesis by (auto simp: digit_def digitVal_def)
qed

lemma readNat_snoc: "readNat (s @ [c]) = 10 * readNat s + digitVal c"
  by (simp add: readNat_def)

lemma readNat_showNat: "readNat (showNat n) = n"
proof (induction n rule: showNat.induct)
  case (1 n)
  show ?case
  proof (cases "n < 10")
    case True
    then have "showNat n = [digit n]" by (simp add: showNat.simps)
    with True show ?thesis by (simp add: readNat_def digitVal_digit)
  next
    case False
    then have "showNat n = showNat (n div 10) @ [digit (n mod 10)]"
      by (subst showNat.simps) simp
    with False "1.IH" show ?thesis by (simp add: readNat_snoc digitVal_digit)
  qed
qed

lemma showNat_inj: "showNat m = showNat n \<Longrightarrow> m = n"
  by (metis readNat_showNat)

lemma showNat_literals:
  "showNat 0 = ''0''" "showNat 2 = ''2''" "showNat 10 = ''10''" "showNat 877 = ''877''"
  by code_simp+

lemma getId_name1:
  "getId E name [a] = uuid E (name @ ''::'' @ showArg a) UUID_NAMESPACE"
  by (simp add: getId_def)

lemma getId_name2:
  "getId E name [a, b] = uuid E (name @ ''::'' @ showArg a @ ''::'' @ showArg b) UUID_NAMESPACE"
  by (simp add: getId_def)

lemma getId_nonempty:
  assumes "\<forall>n. uuid E n UUID_NAMESPACE \<noteq> []"
  shows "getId E name args \<noteq> []"
  using assms by (simp add: getId_def Let_def)

lemma ks_id_encrypt: "ks_id (encrypt E p) = ep_id p"
  by (simp add: encrypt_def)

lemma reencrypt_record:
  "encrypt E \<lparr>ep_id = ks_id a, ep_alias = ks_alias a, ep_address = ks_address a,
              ep_owner = ks_owner a, ep_chainId = ks_chainId a, ep_path = ks_path a,
              ep_parentId = ks_parentId a, ep_type = ks_type a,
              ep_password = pw, ep_text = t\<rparr> = a\<lparr>ks_crypto := seal E pw t\<rparr>"
  by (cases a) (simp add: encrypt_def)

lemma getRecord_id_SomeD:
  "Store_getRecord recordId v st = Some r \<Longrightarrow> r \<in> set st \<and> v = Some (ks_id r)"
  by (auto simp: Store_getRecord_def recordId_def find_Some_iff)

lemma getRecord_None_iff:
  "Store_getRecord prop v st = None \<longleftrightarrow> (\<forall>r\<in>set st. prop r \<noteq> v)"
  by (auto simp: Store_getRecord_def find_None_iff)

lemma checkPassword_SomeD:
  assumes "checkPassword E kr pw (Some accountId)"
  obtains r where "Store_getRecord recordId (Some accountId) (keyStore kr) = Some r"
    and "decrypt E r pw \<noteq> None"
  using assms by (auto simp: checkPassword_def split: option.splits)

lemma length_Store_update: "length (Store_update st i r) = length st"
  by (simp add: Store_update_def)

lemma nth_Store_update_other:
  "n < length st \<Longrightarrow> ks_id (st ! n) \<noteq> i \<Longrightarrow> Store_update st i r ! n = st ! n"
  by (simp add: Store_update_def)

lemma keyStore_addSecretKey: "keyStore (addSecretKey E kr sk pw alias i) = keyStore kr"
  by (simp add: addSecretKey_def Let_def)

lemma keyStore_addSpendingKey: "keyStore (addSpendingKey E kr xsk pw alias i) = keyStore kr"
  by (simp add: addSpendingKey_def Let_def)

lemma keyStore_setActiveAccountId: "keyStore (setActiveAccountId E kr i) = keyStore kr"
  by (simp add: setActiveAccountId_def Let_def split: option.splits)

text \<open>The loop of resetPassword stops at the first record that does not decrypt.\<close>

lemma resetPassword_loop_stops:
  assumes "\<forall>a\<in>set pre. decrypt E a cur \<noteq> None" and "decrypt E bad cur = None"
  shows "resetPassword_loop E cur new (pre @ bad # post) st =
           (False, foldl (\<lambda>st a. Store_update st (ks_id a)
                            (a\<lparr>ks_crypto := seal E new (the (decrypt E a cur))\<rparr>)) st pre)"
  using assms
proof (induction pre arbitrary: st)
  case Nil
  then show ?case by simp
next
  case (Cons a pre)
  then obtain t where "decrypt E a cur = Some t" by auto
  with Cons show ?case by (simp add: reencrypt_record)
qed

lemma resetPassword_loop_runs:
  assumes "\<forall>a\<in>set batch. decrypt E a cur \<noteq> None"
  shows "resetPassword_loop E cur new batch st =
           (True, foldl (\<lambda>st a. Store_update st (ks_id a)
                            (a\<lparr>ks_crypto := seal E new (the (decrypt E a cur))\<rparr>)) st batch)"
  using assms
proof (induction batch arbitrary: st)
  case Nil
  then show ?case by simp
next
  case (Cons a batch)
  then obtain t where "decrypt E a cur = Some t" by auto
  with Cons show ?case by (simp add: reencrypt_record)
qed

lemma foldl_update_length:
  "length (foldl (\<lambda>st a. Store_update st (ks_id a) (f a)) st pre) = length st"
  by (induction pre arbitrary: st) (simp_all add: length_Store_update)

lemma foldl_update_nth_other:
  "n < length st \<Longrightarrow> ks_id (st ! n) \<notin> ks_id ` set pre \<Longrightarrow>
     foldl (\<lambda>st a. Store_update st (ks_id a) (f a)) st pre ! n = st ! n"
proof (induction pre arbitrary: st)
  case Nil
  then show ?case by simp
next
  case (Cons a pre)
  have "Store_update st (ks_id a) (f a) ! n = st ! n"
    using Cons.prems by (simp add: nth_Store_update_other)
  moreover have "n < length (Store_update st (ks_id a) (f a))"
    using Cons.prems by (simp add: length_Store_update)
  ultimately show ?case using Cons.IH [of "Store_update st (ks_id a) (f a)"] Cons.prems
    by simp
qed

text \<open>The loop of deleteAccount removes the records stored under the non-empty ids.\<close>

lemma deleteAccount_loop_filter:
  "deleteAccount_loop ids st = filter (\<lambda>r. ks_id r \<notin> set ids - {[]}) st"
  by (induction ids arbitrary: st) (auto simp: Store_remove_def intro!: filter_cong)

text \<open>What deriveAccount returns and leaves behind when nothing inside its try block throws.\<close>

lemma deriveAccount_shielded:
  assumes "password kr = Some pw" and "pw \<noteq> []"
    and "Store_getRecord recordId (getActiveAccountId kr) (keyStore kr) = Some parent"
    and "decrypt E parent pw = Some phrase" and "from_phrase E phrase = Some m"
  shows "deriveAccount E kr path ShieldedKeys alias =
           (let sa = deriveShieldedAccount E (to_seed E m) path (ks_id parent);
                kr1 = addSpendingKey E kr (dsai_spendingKey sa) pw alias (ks_id parent)
            in (Inr \<lparr>da_id = dsai_id sa, da_address = dsai_address sa, da_alias = alias,
                     da_chainId = chainId kr, da_parentId = Some (ks_id parent),
                     da_path = path, da_type = ShieldedKeys\<rparr>,
                kr1\<lparr>keyStore := keyStore kr @
                  [encrypt E \<lparr>ep_id = dsai_id sa, ep_alias = alias, ep_address = dsai_address sa,
                              ep_owner = dsai_viewingKey sa, ep_chainId = chainId kr,
                              ep_path = path, ep_parentId = Some (ks_id parent),
                              ep_type = ShieldedKeys, ep_password = pw,
                              ep_text = dsai_text sa\<rparr>]\<rparr>))"
  using assms
  by (simp add: deriveAccount_def Let_def Store_append_def keyStore_addSpendingKey)

lemma deriveAccount_transparent:
  assumes "password kr = Some pw" and "pw \<noteq> []"
    and "Store_getRecord recordId (getActiveAccountId kr) (keyStore kr) = Some parent"
    and "decrypt E parent pw = Some phrase" and "from_phrase E phrase = Some m"
    and "type \<noteq> ShieldedKeys"
    and "deriveTransparentAccount E (to_seed E m) path (ks_id parent) (chainId kr) = Some ta"
  shows "deriveAccount E kr path type alias =
           (let kr1 = addSecretKey E kr (dai_text ta) pw alias (ks_id parent)
            in (Inr \<lparr>da_id = dai_id ta, da_address = dai_address ta, da_alias = alias,
                     da_chainId = chainId kr, da_parentId = Some (ks_id parent),
                     da_path = path, da_type = type\<rparr>,
                kr1\<lparr>keyStore := keyStore kr @
                  [encrypt E \<lparr>ep_id = dai_id ta, ep_alias = alias, ep_address = dai_address ta,
                              ep_owner = dai_address ta, ep_chainId = chainId kr,
                              ep_path = path, ep_parentId = Some (ks_id parent),
                              ep_type = type, ep_password = pw,
                              ep_text = dai_text ta\<rparr>]\<rparr>))"
  using assms
  by (simp add: deriveAccount_def Let_def Store_append_def keyStore_addSecretKey)

subsection \<open>UUID version 5\<close>

text \<open>The test vector of Python's \<^verbatim>\<open>uuid.uuid5(uuid.NAMESPACE_DNS, 'python.org')\<close>.\<close>

lemma uuidv5_test_vector:
  "uuidv5 ''python.org'' ''6ba7b810-9dad-11d1-80b4-00c04fd430c8'' =
     ''886313e1-3b8a-5372-9b90-0c9aee199e5d''"
  by code_simp

lemma uuidv5_nonempty: "uuidv5 name ns \<noteq> []"
  by (simp add: uuidv5_def uuid_format_def Let_def)

subsection \<open>Record ids are never empty\<close>

text \<open>
  Every id that the keyring stores is a value of \<open>uuid\<close>. As long as \<open>uuid\<close> never
  returns the empty string (a UUID has 36 characters), no operation puts a record with
  an empty id into the key store.
\<close>

lemma storeMnemonic_ids_nonempty:
  assumes uuid: "\<forall>n. uuid E n UUID_NAMESPACE \<noteq> []"
    and ids: "\<forall>r\<in>set (keyStore kr). ks_id r \<noteq> []"
  shows "\<forall>r\<in>set (keyStore (snd (storeMnemonic E kr mnemonic pw alias))). ks_id r \<noteq> []"
  using ids getId_nonempty [OF uuid]
  by (simp add: storeMnemonic_def Let_def Store_append_def ks_id_encrypt
      keyStore_addSecretKey keyStore_setActiveAccountId split: option.split)

lemma deriveAccount_ids_nonempty:
  assumes uuid: "\<forall>n. uuid E n UUID_NAMESPACE \<noteq> []"
    and ids: "\<forall>r\<in>set (keyStore kr). ks_id r \<noteq> []"
  shows "\<forall>r\<in>set (keyStore (snd (deriveAccount E kr path type alias))). ks_id r \<noteq> []"
  using ids getId_nonempty [OF uuid]
  by (simp add: deriveAccount_def Let_def Store_append_def ks_id_encrypt
      keyStore_addSecretKey keyStore_addSpendingKey deriveShieldedAccount_def
      deriveTransparentAccount_def split: option.split prod.split)

lemma resetPassword_loop_ids_nonempty:
  assumes "\<forall>r\<in>set st. ks_id r \<noteq> []" and "\<forall>a\<in>set batch. ks_id a \<noteq> []"
  shows "\<forall>r\<in>set (snd (resetPassword_loop E cur new batch st)). ks_id r \<noteq> []"
  using assms
proof (induction batch arbitrary: st)
  case Nil
  then show ?case by simp
next
  case (Cons a batch)
  show ?case
  proof (cases "decrypt E a cur")
    case None
    with Cons.prems show ?thesis by simp
  next
    case (Some t)
    have "\<forall>r\<in>set (Store_update st (ks_id a) (a\<lparr>ks_crypto := seal E new t\<rparr>)). ks_id r \<noteq> []"
      using Cons.prems by (auto simp: Store_update_def)
    with Cons.IH Cons.prems Some show ?thesis
      by (simp add: reencrypt_record)
  qed
qed

lemma resetPassword_ids_nonempty:
  assumes ids: "\<forall>r\<in>set (keyStore kr). ks_id r \<noteq> []"
  shows "\<forall>r\<in>set (keyStore (snd (resetPassword E kr cur new accountId))). ks_id r \<noteq> []"
proof (cases "Store_getRecord recordId (Some accountId) (keyStore kr)")
  case None
  with ids show ?thesis by (simp add: resetPassword_def Let_def)
next
  case (Some p)
  let ?batch = "p # Store_getRecords ks_parentId (Some accountId) (keyStore kr)"
  from Some have "p \<in> set (keyStore kr)" by (auto dest: getRecord_id_SomeD)
  with ids have "\<forall>a\<in>set ?batch. ks_id a \<noteq> []" by (auto simp: Store_getRecords_def)
  with ids have "\<forall>r\<in>set (snd (resetPassword_loop E cur new ?batch (keyStore kr))). ks_id r \<noteq> []"
    by (rule resetPassword_loop_ids_nonempty)
  with ids Some show ?thesis
    by (simp add: resetPassword_def Let_def split: prod.split bool.split
        del: resetPassword_loop.simps)
qed

lemma deleteAccount_ids_nonempty:
  assumes ids: "\<forall>r\<in>set (keyStore kr). ks_id r \<noteq> []"
  shows "\<forall>r\<in>set (keyStore (snd (deleteAccount E kr accountId pw))). ks_id r \<noteq> []"
  using ids by (simp add: deleteAccount_def Let_def deleteAccount_loop_filter)

lemma reachable_ids_nonempty:
  assumes "reachable E kr" and uuid: "\<forall>n. uuid E n UUID_NAMESPACE \<noteq> []"
  shows "\<forall>r\<in>set (keyStore kr). ks_id r \<noteq> []"
  using assms(1)
proof (induction rule: reachable.induct)
  case (reachable_init kr)
  then show ?case by simp
next
  case (reachable_storeMnemonic kr mnemonic pw al)
  then show ?case by (intro storeMnemonic_ids_nonempty [OF uuid])
next
  case (reachable_deriveAccount kr path type al)
  then show ?case by (intro deriveAccount_ids_nonempty [OF uuid])
next
  case (reachable_resetPassword kr currentPassword newPassword accountId)
  then show ?case by (intro resetPassword_ids_nonempty)
next
  case (reachable_deleteAccount kr accountId pw)
  then show ?case by (intro deleteAccount_ids_nonempty)
next
  case (reachable_unlock kr pw)
  then show ?case by (simp add: unlock_def)
next
  case (reachable_lock kr)
  then show ?case by (simp add: lock_def)
next
  case (reachable_setActiveAccountId kr parentId)
  then show ?case by (simp add: keyStore_setActiveAccountId)
qed

lemma reachable_uuidv5_ids_nonempty:
  assumes "reachable E kr" and "uuid E = uuidv5"
  shows "\<forall>r\<in>set (keyStore kr). ks_id r \<noteq> []"
proof (rule reachable_ids_nonempty)
  show "reachable E kr" by fact
  show "\<forall>n. uuid E n UUID_NAMESPACE \<noteq> []"
    using assms(2) by (simp add: uuidv5_nonempty)
qed

subsection \<open>Unlocking\<close>

text \<open>
  C10: for every password that fails the password check on the active record, unlock
  returns normally and leaves the keyring exactly as it was: the status is not set to
  Unlocked and no password is cached.
\<close>

theorem unlock_wrong_password_unchanged:
  assumes "\<not> checkPassword E kr pw None"
  shows "unlock E kr pw = kr"
  using assms by (simp add: unlock_def)

theorem unlock_wrong_password_unchanged_witness:
  "\<not> checkPassword testEnv ring1 ''wrong'' None \<and> unlock testEnv ring1 ''wrong'' = ring1"
proof -
  have h: "\<not> checkPassword testEnv ring1 ''wrong'' None" by code_simp
  from h unlock_wrong_password_unchanged [OF h] show ?thesis by (rule conjI)
qed

subsection \<open>Password rotation\<close>

text \<open>
  C6: when the supplied current password fails the password check against the record of
  \<open>accountId\<close>, resetPassword returns the error BadPassword and the keyring it leaves is
  the keyring it found: no blob is rewritten, so every record decrypts exactly as before,
  and the cached password is unchanged.
\<close>

theorem resetPassword_bad_password:
  assumes "\<not> checkPassword E kr currentPassword (Some accountId)"
  shows "resetPassword E kr currentPassword newPassword accountId =
           (Inl ResetPasswordError_BadPassword, kr)"
  using assms by (simp add: resetPassword_def)

theorem resetPassword_bad_password_witness:
  "\<not> checkPassword testEnv ring1 ''wrong'' (Some ''p1'') \<and>
   resetPassword testEnv ring1 ''wrong'' ''new'' ''p1'' = (Inl ResetPasswordError_BadPassword, ring1)"
proof -
  have h: "\<not> checkPassword testEnv ring1 ''wrong'' (Some ''p1'')" by code_simp
  from h resetPassword_bad_password [OF h] show ?thesis by (rule conjI)
qed

text \<open>
  C1, as the code has it: resetPassword has no rollback. When the record \<open>bad\<close> of the
  batch fails to decrypt under the current password, after the records \<open>pre\<close> before it
  have been rewritten, the result is KeyStoreError and nothing but the key store changes
  (the cached password stays), and the key store keeps the writes made so far: it is the
  old store with each record of \<open>pre\<close> written back under the new password. \<open>pre\<close> starts
  with the top-level record, so at least that one has been rewritten; the records whose
  id is not the id of a record of \<open>pre\<close> are as they were.
\<close>

theorem resetPassword_failure_keeps_partial_updates:
  assumes ok: "checkPassword E kr cur (Some accountId)"
    and parent: "Store_getRecord recordId (Some accountId) (keyStore kr) = Some parent"
    and batch: "parent # Store_getRecords ks_parentId (Some accountId) (keyStore kr) = pre @ bad # post"
    and pre: "\<forall>a\<in>set pre. decrypt E a cur \<noteq> None"
    and bad: "decrypt E bad cur = None"
  shows "resetPassword E kr cur new accountId =
           (Inl ResetPasswordError_KeyStoreError,
            kr\<lparr>keyStore := foldl (\<lambda>st a. Store_update st (ks_id a)
                                  (a\<lparr>ks_crypto := seal E new (the (decrypt E a cur))\<rparr>))
                               (keyStore kr) pre\<rparr>) \<and>
         pre \<noteq> [] \<and> hd pre = parent \<and>
         (\<forall>n<length (keyStore kr). ks_id (keyStore kr ! n) \<notin> ks_id ` set pre \<longrightarrow>
            keyStore (snd (resetPassword E kr cur new accountId)) ! n = keyStore kr ! n)"
proof -
  let ?st = "foldl (\<lambda>st a. Store_update st (ks_id a)
                (a\<lparr>ks_crypto := seal E new (the (decrypt E a cur))\<rparr>)) (keyStore kr) pre"
  have res: "resetPassword E kr cur new accountId =
               (Inl ResetPasswordError_KeyStoreError, kr\<lparr>keyStore := ?st\<rparr>)"
  proof -
    have "resetPassword_loop E cur new
            (parent # Store_getRecords ks_parentId (Some accountId) (keyStore kr)) (keyStore kr) =
          (False, ?st)"
      unfolding batch by (rule resetPassword_loop_stops [OF pre bad])
    with ok parent show ?thesis
      by (simp add: resetPassword_def del: resetPassword_loop.simps)
  qed
  have dec: "decrypt E parent cur \<noteq> None"
    using ok parent by (auto simp: checkPassword_def split: option.splits)
  have ne: "pre \<noteq> []"
  proof
    assume "pre = []"
    with batch have "bad = parent" by simp
    with bad dec show False by simp
  qed
  then have hd: "hd pre = parent"
    using batch by (cases pre) simp_all
  have others: "\<forall>n<length (keyStore kr). ks_id (keyStore kr ! n) \<notin> ks_id ` set pre \<longrightarrow>
                  keyStore (snd (resetPassword E kr cur new accountId)) ! n = keyStore kr ! n"
    by (simp add: res foldl_update_nth_other)
  from res ne hd others show ?thesis by blast
qed

theorem resetPassword_failure_keeps_partial_updates_witness:
  "checkPassword testEnv ring2 ''hunter2'' (Some ''p1'') \<and>
   decrypt testEnv child1_other ''hunter2'' = None \<and>
   resetPassword testEnv ring2 ''hunter2'' ''new'' ''p1'' =
     (Inl ResetPasswordError_KeyStoreError,
      ring2\<lparr>keyStore := foldl (\<lambda>st a. Store_update st (ks_id a)
                 (a\<lparr>ks_crypto := seal testEnv ''new'' (the (decrypt testEnv a ''hunter2''))\<rparr>))
               (keyStore ring2) [parent1]\<rparr>)"
proof -
  have ok: "checkPassword testEnv ring2 ''hunter2'' (Some ''p1'')" by code_simp
  have parent: "Store_getRecord recordId (Some ''p1'') (keyStore ring2) = Some parent1"
    by code_simp
  have batch: "parent1 # Store_getRecords ks_parentId (Some ''p1'') (keyStore ring2) =
                 [parent1] @ child1_other # []"
    by code_simp
  have pre: "\<forall>a\<in>set [parent1]. decrypt testEnv a ''hunter2'' \<noteq> None" by code_simp
  have bad: "decrypt testEnv child1_other ''hunter2'' = None" by code_simp
  from resetPassword_failure_keeps_partial_updates [OF ok parent batch pre bad, of "''new''"]
    ok bad show ?thesis by blast
qed

text \<open>
  The claim of C1 as stated fails: in a keyring whose child record does not open under
  the current password, resetPassword returns KeyStoreError and the parent's blob has
  been replaced by one under the new password.
\<close>

theorem resetPassword_not_atomic:
  "fst (resetPassword testEnv ring2 ''hunter2'' ''new'' ''p1'') = Inl ResetPasswordError_KeyStoreError \<and>
   map ks_crypto (keyStore ring2) =
     [(''hunter2'', join '' '' testPhrase), (''other'', ''sk1'')] \<and>
   map ks_crypto (keyStore (snd (resetPassword testEnv ring2 ''hunter2'' ''new'' ''p1''))) =
     [(''new'', join '' '' testPhrase), (''other'', ''sk1'')]"
  by code_simp

subsection \<open>Storing a mnemonic\<close>

text \<open>
  C7: when storeMnemonic goes through (a non-empty password, a phrase that the validator
  accepts, a chain the registry knows), it appends exactly one record, whose id is the
  uuid (under the fixed namespace) of the phrase, \<open>::\<close> and the decimal number of records
  that the key store held at the call; the same id becomes the active account id. The id
  depends on nothing but the phrase and that number: a call on any other keyring holding
  as many records, with any other password and alias, yields the same id. The number of
  records does enter the hashed name: for any other number the name is a different
  string.
\<close>

theorem storeMnemonic_id:
  assumes "pw \<noteq> []" and "from_phrase E (join '' '' mnemonic) \<noteq> None"
    and "chains_coinType E (chainId kr) \<noteq> None"
  shows "fst (storeMnemonic E kr mnemonic pw alias) = Inr True \<and>
         keyStore (snd (storeMnemonic E kr mnemonic pw alias)) =
           keyStore kr @ [last (keyStore (snd (storeMnemonic E kr mnemonic pw alias)))] \<and>
         ks_id (last (keyStore (snd (storeMnemonic E kr mnemonic pw alias)))) =
           uuid E (join '' '' mnemonic @ ''::'' @ showNat (length (keyStore kr))) UUID_NAMESPACE \<and>
         activeAccountStore (snd (storeMnemonic E kr mnemonic pw alias)) =
           Some (uuid E (join '' '' mnemonic @ ''::'' @ showNat (length (keyStore kr)))
                   UUID_NAMESPACE) \<and>
         (\<forall>kr2 pw2 alias2.
            pw2 \<noteq> [] \<longrightarrow> chains_coinType E (chainId kr2) \<noteq> None \<longrightarrow>
            length (keyStore kr2) = length (keyStore kr) \<longrightarrow>
            ks_id (last (keyStore (snd (storeMnemonic E kr2 mnemonic pw2 alias2)))) =
            ks_id (last (keyStore (snd (storeMnemonic E kr mnemonic pw alias))))) \<and>
         readNat (drop (length (join '' '' mnemonic) + 2)
                    (join '' '' mnemonic @ ''::'' @ showNat (length (keyStore kr)))) =
           length (keyStore kr) \<and>
         (\<forall>n. n \<noteq> length (keyStore kr) \<longrightarrow>
            join '' '' mnemonic @ ''::'' @ showNat n \<noteq>
            join '' '' mnemonic @ ''::'' @ showNat (length (keyStore kr)))"
proof -
  have run: "fst (storeMnemonic E kr mnemonic pw alias) = Inr True \<and>
         keyStore (snd (storeMnemonic E kr mnemonic pw alias)) =
           keyStore kr @ [last (keyStore (snd (storeMnemonic E kr mnemonic pw alias)))] \<and>
         ks_id (last (keyStore (snd (storeMnemonic E kr mnemonic pw alias)))) =
           uuid E (join '' '' mnemonic @ ''::'' @ showNat (length (keyStore kr))) UUID_NAMESPACE \<and>
         activeAccountStore (snd (storeMnemonic E kr mnemonic pw alias)) =
           Some (uuid E (join '' '' mnemonic @ ''::'' @ showNat (length (keyStore kr)))
                   UUID_NAMESPACE) \<and>
         (\<forall>kr2 pw2 alias2.
            pw2 \<noteq> [] \<longrightarrow> chains_coinType E (chainId kr2) \<noteq> None \<longrightarrow>
            length (keyStore kr2) = length (keyStore kr) \<longrightarrow>
            ks_id (last (keyStore (snd (storeMnemonic E kr2 mnemonic pw2 alias2)))) =
            ks_id (last (keyStore (snd (storeMnemonic E kr mnemonic pw alias)))))"
    using assms
    by (auto simp: storeMnemonic_def Let_def getId_name1 Store_append_def encrypt_def
        setActiveAccountId_def addSecretKey_def split: option.splits)
  have read: "readNat (drop (length (join '' '' mnemonic) + 2)
                    (join '' '' mnemonic @ ''::'' @ showNat (length (keyStore kr)))) =
           length (keyStore kr)"
    by (simp add: readNat_showNat)
  have rank: "\<forall>n. n \<noteq> length (keyStore kr) \<longrightarrow>
            join '' '' mnemonic @ ''::'' @ showNat n \<noteq>
            join '' '' mnemonic @ ''::'' @ showNat (length (keyStore kr))"
    by (auto dest: showNat_inj)
  from run read rank show ?thesis by (intro conjI) (elim conjE, assumption)+
qed

theorem storeMnemonic_id_witness:
  "''hunter2'' \<noteq> [] \<and> from_phrase testEnv (join '' '' testPhrase) \<noteq> None \<and>
   chains_coinType testEnv (chainId ring1) \<noteq> None \<and>
   length (keyStore ring1) = 2 \<and>
   fst (storeMnemonic testEnv ring1 testPhrase ''hunter2'' ''main'') = Inr True \<and>
   ks_id (last (keyStore (snd (storeMnemonic testEnv ring1 testPhrase ''hunter2'' ''main'')))) =
     uuid testEnv
       ''abandon abandon abandon abandon abandon abandon abandon abandon abandon abandon abandon about::2''
       UUID_NAMESPACE \<and>
   ks_id (last (keyStore (snd (storeMnemonic testEnv ring1 testPhrase ''hunter2'' ''main'')))) =
     ''669b926b-0178-5d09-b321-c3ecb47abeb9'' \<and>
   ks_id (last (keyStore (snd (storeMnemonic testEnv ring0 testPhrase ''hunter2'' ''main'')))) =
     uuid testEnv
       ''abandon abandon abandon abandon abandon abandon abandon abandon abandon abandon abandon about::0''
       UUID_NAMESPACE \<and>
   ks_id (last (keyStore (snd (storeMnemonic testEnv ring0 testPhrase ''hunter2'' ''main'')))) =
     ''cad6fa66-ec0c-53b0-9a4d-fee0c3485fc0''"
proof -
  have h1: "''hunter2'' \<noteq> []" by simp
  have h2: "from_phrase testEnv (join '' '' testPhrase) \<noteq> None" by code_simp
  have h3: "chains_coinType testEnv (chainId ring1) \<noteq> None" by code_simp
  have h3': "chains_coinType testEnv (chainId ring0) \<noteq> None" by code_simp
  have len: "length (keyStore ring1) = 2" by code_simp
  have n2: "join '' '' testPhrase @ ''::'' @ showNat (length (keyStore ring1)) =
    ''abandon abandon abandon abandon abandon abandon abandon abandon abandon abandon abandon about::2''"
    by code_simp
  have n0: "join '' '' testPhrase @ ''::'' @ showNat (length (keyStore ring0)) =
    ''abandon abandon abandon abandon abandon abandon abandon abandon abandon abandon abandon about::0''"
    by code_simp
  have v2: "uuid testEnv
       ''abandon abandon abandon abandon abandon abandon abandon abandon abandon abandon abandon about::2''
       UUID_NAMESPACE = ''669b926b-0178-5d09-b321-c3ecb47abeb9''"
    by code_simp
  have v0: "uuid testEnv
       ''abandon abandon abandon abandon abandon abandon abandon abandon abandon abandon abandon about::0''
       UUID_NAMESPACE = ''cad6fa66-ec0c-53b0-9a4d-fee0c3485fc0''"
    by code_simp
  from storeMnemonic_id [OF h1 h2 h3, of "''main''"]
  have ok2: "fst (storeMnemonic testEnv ring1 testPhrase ''hunter2'' ''main'') = Inr True"
    and id2: "ks_id (last (keyStore (snd (storeMnemonic testEnv ring1 testPhrase ''hunter2'' ''main'')))) =
         uuid testEnv (join '' '' testPhrase @ ''::'' @ showNat (length (keyStore ring1)))
           UUID_NAMESPACE"
    by blast+
  from storeMnemonic_id [OF h1 h2 h3', of "''main''"]
  have id0: "ks_id (last (keyStore (snd (storeMnemonic testEnv ring0 testPhrase ''hunter2'' ''main'')))) =
         uuid testEnv (join '' '' testPhrase @ ''::'' @ showNat (length (keyStore ring0)))
           UUID_NAMESPACE"
    by blast
  note id2' = id2 [unfolded n2] and id0' = id0 [unfolded n0]
  from h1 h2 h3 len ok2 id2' id2' [unfolded v2] id0' id0' [unfolded v0]
  show ?thesis by (intro conjI)
qed


text \<open>
  C9, as the code has it: when the phrase validator rejects the joined word list,
  storeMnemonic raises no InvalidMnemonic error. The exception is caught inside the
  function, which returns \<open>false\<close> (with an empty password it throws the missing-password
  error before it looks at the phrase). Either way the keyring is left exactly as it was:
  no record is appended.
\<close>

theorem storeMnemonic_invalid_phrase:
  assumes "from_phrase E (join '' '' mnemonic) = None"
  shows "storeMnemonic E kr mnemonic pw alias =
           (if pw = [] then Inl (Error ''Password is not provided! Cannot store mnemonic'')
            else Inr False, kr)"
  using assms by (simp add: storeMnemonic_def)

theorem storeMnemonic_invalid_phrase_witness:
  "from_phrase testEnv (join '' '' [''not'', ''a'', ''phrase'']) = None \<and>
   storeMnemonic testEnv ring1 [''not'', ''a'', ''phrase''] ''hunter2'' ''a'' = (Inr False, ring1)"
proof -
  have h: "from_phrase testEnv (join '' '' [''not'', ''a'', ''phrase'']) = None" by code_simp
  from h storeMnemonic_invalid_phrase [OF h, of ring1 "''hunter2''" "''a''"]
  show ?thesis by simp
qed

text \<open>
  The claim of C9 as stated fails: on a three-word list storeMnemonic does not fail with
  an error; it returns the value \<open>false\<close>.
\<close>

theorem storeMnemonic_invalid_phrase_returns_false:
  "fst (storeMnemonic testEnv ring1 [''not'', ''a'', ''phrase''] ''hunter2'' ''a'') = Inr False \<and>
   \<not> isl (fst (storeMnemonic testEnv ring1 [''not'', ''a'', ''phrase''] ''hunter2'' ''a''))"
  by code_simp

subsection \<open>Derivation\<close>

text \<open>
  C2, as the code has it: deriveAccount makes no duplicate check. On a keyring with a
  cached non-empty password whose active record decrypts to a phrase the validator
  accepts (and, for a transparent account, with a chain the registry knows) it succeeds:
  it returns the computed child id and appends exactly one record with that id and the
  parent's id as parentId, whether or not a record with that id is already stored.
\<close>

theorem deriveAccount_no_duplicate_check:
  assumes pw: "password kr = Some pw" "pw \<noteq> []"
    and parent: "Store_getRecord recordId (getActiveAccountId kr) (keyStore kr) = Some parent"
    and phrase: "decrypt E parent pw = Some phrase" "from_phrase E phrase = Some m"
    and chain: "type = ShieldedKeys \<or> chains_coinType E (chainId kr) \<noteq> None"
  shows "let i = (case index path of None \<Rightarrow> 0 | Some i \<Rightarrow> i);
             newId = (if type = ShieldedKeys
                      then getId E ''shielded-account'' [Str (ks_id parent), Num i]
                      else getId E ''account''
                             [Str (ks_id parent), Num (account path), Num (change path), Num i])
         in case deriveAccount E kr path type alias of
              (Inl e, kr') \<Rightarrow> False
            | (Inr da, kr') \<Rightarrow>
                da_id da = newId \<and>
                (\<exists>r. keyStore kr' = keyStore kr @ [r] \<and> ks_id r = newId \<and>
                     ks_parentId r = Some (ks_id parent))"
proof (cases "type = ShieldedKeys")
  case True
  show ?thesis
    unfolding True deriveAccount_shielded [OF pw parent phrase]
    by (simp add: Let_def deriveShieldedAccount_def encrypt_def split: prod.split)
next
  case False
  with chain obtain coinType where "chains_coinType E (chainId kr) = Some coinType" by auto
  then obtain ta where ta: "deriveTransparentAccount E (to_seed E m) path (ks_id parent) (chainId kr) = Some ta"
    and id: "dai_id ta = getId E ''account'' [Str (ks_id parent), Num (account path),
               Num (change path), Num (case index path of None \<Rightarrow> 0 | Some i \<Rightarrow> i)]"
    by (simp add: deriveTransparentAccount_def Let_def)
  show ?thesis
    unfolding deriveAccount_transparent [OF pw parent phrase False ta]
    using False id by (simp add: Let_def encrypt_def)
qed

theorem deriveAccount_no_duplicate_check_witness:
  "password ring3 = Some ''hunter2'' \<and>
   Store_getRecord recordId (getActiveAccountId ring3) (keyStore ring3) = Some parent1 \<and>
   decrypt testEnv parent1 ''hunter2'' = Some (join '' '' testPhrase) \<and>
   from_phrase testEnv (join '' '' testPhrase) = Some (join '' '' testPhrase) \<and>
   chains_coinType testEnv (chainId ring3) \<noteq> None \<and>
   getId testEnv ''account'' [Str ''p1'', Num 0, Num 0, Num 0] \<in> ks_id ` set (keyStore ring3) \<and>
   (let i = (case index path000 of None \<Rightarrow> 0 | Some i \<Rightarrow> i);
        newId = (if PrivateKey = ShieldedKeys
                 then getId testEnv ''shielded-account'' [Str (ks_id parent1), Num i]
                 else getId testEnv ''account''
                        [Str (ks_id parent1), Num (account path000), Num (change path000), Num i])
    in case deriveAccount testEnv ring3 path000 PrivateKey ''a'' of
         (Inl e, kr') \<Rightarrow> False
       | (Inr da, kr') \<Rightarrow>
           da_id da = newId \<and>
           (\<exists>r. keyStore kr' = keyStore ring3 @ [r] \<and> ks_id r = newId \<and>
                ks_parentId r = Some (ks_id parent1)))"
proof -
  have h1: "password ring3 = Some ''hunter2''" by code_simp
  have h2: "''hunter2'' \<noteq> []" by simp
  have h3: "Store_getRecord recordId (getActiveAccountId ring3) (keyStore ring3) = Some parent1"
    by code_simp
  have h4: "decrypt testEnv parent1 ''hunter2'' = Some (join '' '' testPhrase)" by code_simp
  have h5: "from_phrase testEnv (join '' '' testPhrase) = Some (join '' '' testPhrase)"
    by code_simp
  have h6: "chains_coinType testEnv (chainId ring3) \<noteq> None" by code_simp
  then have h6': "PrivateKey = ShieldedKeys \<or> chains_coinType testEnv (chainId ring3) \<noteq> None" ..
  have present: "getId testEnv ''account'' [Str ''p1'', Num 0, Num 0, Num 0] \<in> ks_id ` set (keyStore ring3)"
    by code_simp
  from h1 h3 h4 h5 h6 present
    deriveAccount_no_duplicate_check [OF h1 h2 h3 h4 h5 h6', of path000 "''a''"]
  show ?thesis by (intro conjI)
qed

text \<open>
  The claim of C2 as stated fails: deriving the transparent account at path (0, 0, 0) a
  second time does not fail; it returns the same id again and the key store then holds
  two records with that id.
\<close>

theorem deriveAccount_appends_duplicate:
  "map ks_id (keyStore ring3) = [''p1'', ''5fe4e6e0-0ed8-520d-bd69-ef1a56e39325''] \<and>
   map_sum id da_id (fst (deriveAccount testEnv ring3 path000 PrivateKey ''a'')) =
     Inr ''5fe4e6e0-0ed8-520d-bd69-ef1a56e39325'' \<and>
   map ks_id (keyStore (snd (deriveAccount testEnv ring3 path000 PrivateKey ''a''))) =
     [''p1'', ''5fe4e6e0-0ed8-520d-bd69-ef1a56e39325'', ''5fe4e6e0-0ed8-520d-bd69-ef1a56e39325'']"
  by code_simp

text \<open>
  C3, as the code has it: the id of a derived shielded account is the uuid, under the
  fixed namespace, of the name \<open>shielded-account::parentId::index\<close>, where an absent index
  counts as 0. The account and change levels of the path are not part of the name.
\<close>

theorem deriveShieldedAccount_id:
  "dsai_id (deriveShieldedAccount E seed path parentId) =
     uuid E (''shielded-account::'' @ parentId @ ''::'' @
             showNat (case index path of None \<Rightarrow> 0 | Some i \<Rightarrow> i)) UUID_NAMESPACE"
  by (simp add: deriveShieldedAccount_def getId_name2 Let_def split: prod.splits)

theorem deriveShieldedAccount_id_witness:
  "dsai_id (deriveShieldedAccount testEnv [] \<lparr>account = 1, change = 2, index = None\<rparr> ''p1'') =
     uuid testEnv ''shielded-account::p1::0'' UUID_NAMESPACE"
  using deriveShieldedAccount_id [of testEnv "[]" "\<lparr>account = 1, change = 2, index = None\<rparr>" "''p1''"]
  by (simp add: showNat_0)

text \<open>
  The claim of C3 as stated fails: for the path (1, 2, 3) under the parent \<open>p1\<close> the id is
  the uuid of \<open>shielded-account::p1::3\<close>, not the uuid of \<open>shielded-account::p1::1::2::3\<close>.
\<close>

theorem deriveShieldedAccount_id_ignores_account_change:
  "dsai_id (deriveShieldedAccount testEnv [] \<lparr>account = 1, change = 2, index = Some 3\<rparr> ''p1'') =
     ''c845a99d-b8c0-55f1-8cbd-7bfbbe3678c1'' \<and>
   uuid testEnv ''shielded-account::p1::3'' UUID_NAMESPACE =
     ''c845a99d-b8c0-55f1-8cbd-7bfbbe3678c1'' \<and>
   uuid testEnv ''shielded-account::p1::1::2::3'' UUID_NAMESPACE =
     ''4037256c-8963-5caa-b1cb-b13ec0e84949'' \<and>
   dsai_id (deriveShieldedAccount testEnv [] \<lparr>account = 1, change = 2, index = Some 3\<rparr> ''p1'') \<noteq>
     uuid testEnv ''shielded-account::p1::1::2::3'' UUID_NAMESPACE"
  by code_simp

text \<open>
  C4, as the code has it: transparent derivation always joins five segments. When
  path.index is absent the index counts as 0 and the derivation path is
  \<open>m/44'/coinType'/account/change/0\<close>; when it is supplied the last segment is that index.
  This string is the path at which the wallet derives the key.
\<close>

theorem derivationPath_index_default:
  "derivationPath coinType \<lparr>account = a, change = c, index = None\<rparr> =
     ''m/44'/'' @ showNat coinType @ [CHR 0x27] @ ''/'' @ showNat a @ ''/'' @ showNat c @ ''/0'' \<and>
   derivationPath coinType \<lparr>account = a, change = c, index = Some i\<rparr> =
     ''m/44'/'' @ showNat coinType @ [CHR 0x27] @ ''/'' @ showNat a @ ''/'' @ showNat c @
       ''/'' @ showNat i \<and>
   map_option dai_text (deriveTransparentAccount E seed path parentId chain) =
     map_option (\<lambda>coinType. hd_derive E seed (derivationPath coinType path))
       (chains_coinType E chain)"
  by (simp add: derivationPath_def deriveTransparentAccount_def showNat_0 Let_def
      split: option.splits)

theorem derivationPath_index_default_witness:
  "derivationPath 877 \<lparr>account = 0, change = 0, index = None\<rparr> =
     ''m/44'/'' @ showNat 877 @ [CHR 0x27] @ ''/'' @ showNat 0 @ ''/'' @ showNat 0 @ ''/0''"
  using derivationPath_index_default [of 877 0 0] by blast

text \<open>
  The claim of C4 as stated fails: for coin type 877 and the path (0, 0) without an index
  the derivation path is \<open>m/44'/877'/0/0/0\<close>; the index segment is not omitted.
\<close>

theorem derivationPath_keeps_index_segment:
  "derivationPath 877 \<lparr>account = 0, change = 0, index = None\<rparr> = ''m/44'/877'/0/0/0'' \<and>
   derivationPath 877 \<lparr>account = 0, change = 0, index = None\<rparr> \<noteq> ''m/44'/877'/0/0''"
  by code_simp

subsection \<open>Queries\<close>

text \<open>
  C5, as the code has it: queryAccounts returns the empty list when no record has the
  active account id (or no account is active); queryBalances does not return an empty
  list when no record has the address: it throws \<open>Account not found.\<close>
\<close>

theorem queries_on_absent_target:
  "((\<forall>r\<in>set (keyStore kr). Some (ks_id r) \<noteq> activeAccountStore kr) \<longrightarrow> queryAccounts kr = []) \<and>
   ((\<forall>r\<in>set (keyStore kr). ks_address r \<noteq> address) \<longrightarrow>
      queryBalances E kr address = Inl (Error ''Account not found.''))"
proof (intro conjI impI)
  assume "\<forall>r\<in>set (keyStore kr). Some (ks_id r) \<noteq> activeAccountStore kr"
  then have "Store_getRecord recordId (getActiveAccountId kr) (keyStore kr) = None"
    by (simp add: getRecord_None_iff recordId_def getActiveAccountId_def)
  then show "queryAccounts kr = []"
    by (simp add: queryAccounts_def Let_def)
next
  assume "\<forall>r\<in>set (keyStore kr). ks_address r \<noteq> address"
  then have "Store_getRecord ks_address address (keyStore kr) = None"
    by (simp add: getRecord_None_iff)
  then show "queryBalances E kr address = Inl (Error ''Account not found.'')"
    by (simp add: queryBalances_def)
qed

theorem queries_on_absent_target_witness:
  "map ks_id (keyStore (testRing [parent2, child2] None)) = [''p2'', ''c2''] \<and>
   activeAccountStore (testRing [parent2, child2] None) = Some ''p1'' \<and>
   queryAccounts (testRing [parent2, child2] None) = [] \<and>
   queryBalances testEnv (testRing [parent2, child2] None) ''nowhere'' =
     Inl (Error ''Account not found.'')"
proof -
  have h1: "\<forall>r\<in>set (keyStore (testRing [parent2, child2] None)).
      Some (ks_id r) \<noteq> activeAccountStore (testRing [parent2, child2] None)"
    by code_simp
  have h2: "\<forall>r\<in>set (keyStore (testRing [parent2, child2] None)). ks_address r \<noteq> ''nowhere''"
    by code_simp
  have ids: "map ks_id (keyStore (testRing [parent2, child2] None)) = [''p2'', ''c2'']"
    by code_simp
  have active: "activeAccountStore (testRing [parent2, child2] None) = Some ''p1''"
    by code_simp
  from h1 h2 queries_on_absent_target [of "testRing [parent2, child2] None" "''nowhere''" testEnv]
  have "queryAccounts (testRing [parent2, child2] None) = []"
    and "queryBalances testEnv (testRing [parent2, child2] None) ''nowhere'' =
           Inl (Error ''Account not found.'')"
    by blast+
  with ids active show ?thesis by (intro conjI)
qed

text \<open>
  The claim of C5 as stated fails: on a key store without the address queryBalances
  returns no list at all, it throws.
\<close>

theorem queryBalances_absent_address_throws:
  "queryBalances testEnv (testRing [parent2, child2] None) ''nowhere'' =
     Inl (Error ''Account not found.'') \<and>
   queryBalances testEnv (testRing [parent2, child2] None) ''nowhere'' \<noteq> Inr []"
  by code_simp

subsection \<open>Deleting an account\<close>

text \<open>
  C8: on a key store in which no record has an empty id (every reachable key store, see
  \<open>reachable_ids_nonempty\<close>), when the password check on the record of \<open>accountId\<close>
  succeeds, deleteAccount returns Ok and removes the record stored under \<open>accountId\<close> and
  every record stored under the id of a record whose parentId is \<open>accountId\<close>: afterwards
  no record has the id \<open>accountId\<close> and none has it as parentId. Nothing else is removed,
  and the cached password is forgotten exactly when \<open>accountId\<close> is the active account id.
\<close>

theorem deleteAccount_cascades:
  assumes ok: "checkPassword E kr pw (Some accountId)"
    and ids: "\<forall>r\<in>set (keyStore kr). ks_id r \<noteq> []"
  shows "deleteAccount E kr accountId pw =
           (Inr (),
            kr\<lparr>keyStore := filter (\<lambda>r. ks_id r \<noteq> accountId \<and>
                    ks_id r \<notin> set (map ks_id (Store_getRecords ks_parentId (Some accountId) (keyStore kr))))
                  (keyStore kr),
               password := (if activeAccountStore kr = Some accountId then None else password kr)\<rparr>) \<and>
         (\<forall>r\<in>set (keyStore (snd (deleteAccount E kr accountId pw))).
            ks_id r \<noteq> accountId \<and> ks_parentId r \<noteq> Some accountId)"
proof -
  let ?children = "Store_getRecords ks_parentId (Some accountId) (keyStore kr)"
  let ?st = "filter (\<lambda>r. ks_id r \<noteq> accountId \<and> ks_id r \<notin> set (map ks_id ?children)) (keyStore kr)"
  obtain p where p: "Store_getRecord recordId (Some accountId) (keyStore kr) = Some p"
    using ok by (rule checkPassword_SomeD)
  then have "p \<in> set (keyStore kr)" and "ks_id p = accountId"
    by (auto dest: getRecord_id_SomeD)
  with ids have ne: "accountId \<noteq> []" by auto
  have loop: "deleteAccount_loop (accountId # map ks_id ?children) (keyStore kr) = ?st"
    unfolding deleteAccount_loop_filter
  proof (rule filter_cong [OF refl])
    fix r assume "r \<in> set (keyStore kr)"
    with ids have "ks_id r \<noteq> []" by simp
    with ne show "(ks_id r \<notin> set (accountId # map ks_id ?children) - {[]}) =
                  (ks_id r \<noteq> accountId \<and> ks_id r \<notin> set (map ks_id ?children))"
      by auto
  qed
  have res: "deleteAccount E kr accountId pw =
      (Inr (), kr\<lparr>keyStore := ?st,
                  password := (if activeAccountStore kr = Some accountId then None else password kr)\<rparr>)"
  proof (cases "activeAccountStore kr = Some accountId")
    case True
    then have "Some accountId = getActiveAccountId kr" by (simp add: getActiveAccountId_def)
    with ok loop True show ?thesis
      by (simp add: deleteAccount_def Let_def del: deleteAccount_loop.simps)
  next
    case False
    then have "Some accountId \<noteq> getActiveAccountId kr" by (auto simp: getActiveAccountId_def)
    with ok loop False show ?thesis
      by (simp add: deleteAccount_def Let_def del: deleteAccount_loop.simps)
  qed
  have "\<forall>r\<in>set ?st. ks_id r \<noteq> accountId \<and> ks_parentId r \<noteq> Some accountId"
    by (auto simp: Store_getRecords_def)
  then have "\<forall>r\<in>set (keyStore (snd (deleteAccount E kr accountId pw))).
            ks_id r \<noteq> accountId \<and> ks_parentId r \<noteq> Some accountId"
    unfolding res by simp
  with res show ?thesis by (rule conjI)
qed

theorem deleteAccount_cascades_witness:
  "checkPassword testEnv ring4 ''hunter2'' (Some ''p1'') \<and>
   map ks_id (keyStore ring4) = [''p1'', ''c1'', ''p2'', ''c2''] \<and>
   map ks_id (keyStore (snd (deleteAccount testEnv ring4 ''p1'' ''hunter2''))) = [''p2'', ''c2''] \<and>
   password (snd (deleteAccount testEnv ring4 ''p1'' ''hunter2'')) = None"
proof -
  have ok: "checkPassword testEnv ring4 ''hunter2'' (Some ''p1'')" by code_simp
  have ids: "\<forall>r\<in>set (keyStore ring4). ks_id r \<noteq> []" by code_simp
  have before: "map ks_id (keyStore ring4) = [''p1'', ''c1'', ''p2'', ''c2'']" by code_simp
  have active: "activeAccountStore ring4 = Some ''p1''" by code_simp
  from deleteAccount_cascades [OF ok ids]
  have eq: "deleteAccount testEnv ring4 ''p1'' ''hunter2'' =
      (Inr (), ring4\<lparr>keyStore := filter (\<lambda>r. ks_id r \<noteq> ''p1'' \<and>
           ks_id r \<notin> set (map ks_id (Store_getRecords ks_parentId (Some ''p1'') (keyStore ring4))))
         (keyStore ring4),
       password := (if activeAccountStore ring4 = Some ''p1'' then None else password ring4)\<rparr>)"
    by (rule conjunct1)
  have left: "map ks_id (filter (\<lambda>r. ks_id r \<noteq> ''p1'' \<and>
           ks_id r \<notin> set (map ks_id (Store_getRecords ks_parentId (Some ''p1'') (keyStore ring4))))
         (keyStore ring4)) = [''p2'', ''c2'']"
    by code_simp
  have after: "map ks_id (keyStore (snd (deleteAccount testEnv ring4 ''p1'' ''hunter2''))) =
      [''p2'', ''c2'']"
    unfolding eq using left by simp
  have forgotten: "password (snd (deleteAccount testEnv ring4 ''p1'' ''hunter2'')) = None"
    unfolding eq using active by simp
  from ok before after forgotten show ?thesis by (intro conjI)
qed

end
